theory Spec2Isabelle
  imports Complex_Main "HOL-Library.AList"
begin

section \<open>JavaScript values used by the input form\<close>

text \<open>
  Strings are lists of code units; only code units below 256 occur in the model. A number
  produced by \<^verbatim>\<open>parseFloat\<close> is NaN, an infinity, or a real: a literal beyond the
  range of the doubles becomes an infinity, one too small to be a double becomes zero, and
  any other keeps its exact decimal value (the rounding to the nearest double inside the
  range and the sign of zero are not modelled).
\<close>

datatype jsnum = NaN | Num real | PosInfinity | NegInfinity

datatype json = JNull | JBool bool | JNumber real | JString string

type_synonym json_object = "(string \<times> json) list"

definition js_whitespace :: "char \<Rightarrow> bool" where
  \<comment> \<open>TAB, LF, VT, FF, CR, SPACE and NBSP: the white space and line terminators below 256.\<close>
  "js_whitespace c = ((of_char c :: nat) \<in> {9, 10, 11, 12, 13, 32, 160})"

definition trim :: "string \<Rightarrow> string" where
  "trim s = rev (dropWhile js_whitespace (rev (dropWhile js_whitespace s)))"

definition is_digit :: "char \<Rightarrow> bool" where
  "is_digit c = (48 \<le> (of_char c :: nat) \<and> (of_char c :: nat) \<le> 57)"

fun digits_value :: "nat \<Rightarrow> string \<Rightarrow> nat" where
  "digits_value acc [] = acc"
| "digits_value acc (c # cs) = digits_value (10 * acc + (of_char c - 48)) cs"

definition scale10 :: "nat \<Rightarrow> int \<Rightarrow> real" where
  "scale10 m e = (if 0 \<le> e then real m * 10 ^ nat e else real m / 10 ^ nat (- e))"

definition double_of :: "real \<Rightarrow> jsnum" where
  \<comment> \<open>A non-negative decimal value as a double: at or above \<open>2^1024 - 2^970\<close> it rounds to
     Infinity, at or below \<open>2^-1075\<close> it rounds to zero.\<close>
  "double_of x =
     (if 2 ^ 1024 - 2 ^ 970 \<le> x then PosInfinity
      else if x \<le> 1 / 2 ^ 1075 then Num 0
      else Num x)"

definition signed_integer :: "int \<Rightarrow> string \<Rightarrow> int" where
  \<comment> \<open>The digits of an exponent; without a digit the exponent part is not consumed.\<close>
  "signed_integer sg s =
     (let ds = takeWhile is_digit s in if ds = [] then 0 else sg * int (digits_value 0 ds))"

definition exponent_part :: "string \<Rightarrow> int" where
  "exponent_part s =
     (case s of
        [] \<Rightarrow> 0
      | c # r \<Rightarrow>
          if c = CHR ''e'' \<or> c = CHR ''E'' then
            (case r of
               [] \<Rightarrow> 0
             | d # r' \<Rightarrow>
                 if d = CHR ''+'' then signed_integer 1 r'
                 else if d = CHR ''-'' then signed_integer (- 1) r'
                 else signed_integer 1 r)
          else 0)"

definition unsigned_literal :: "string \<Rightarrow> jsnum" where
  \<comment> \<open>The longest prefix that is a StrUnsignedDecimalLiteral, or NaN when there is none.\<close>
  "unsigned_literal s =
     (if take 8 s = ''Infinity'' then PosInfinity
      else
        let ip = takeWhile is_digit s; r1 = dropWhile is_digit s in
        (case r1 of
           [] \<Rightarrow> if ip = [] then NaN else double_of (scale10 (digits_value 0 ip) 0)
         | c # r2 \<Rightarrow>
             if c = CHR ''.'' then
               (let fp = takeWhile is_digit r2; r3 = dropWhile is_digit r2 in
                if ip = [] \<and> fp = [] then NaN
                else double_of (scale10 (digits_value 0 (ip @ fp))
                                        (exponent_part r3 - int (length fp))))
             else if ip = [] then NaN
             else double_of (scale10 (digits_value 0 ip) (exponent_part r1))))"

fun negate :: "jsnum \<Rightarrow> jsnum" where
  "negate NaN = NaN"
| "negate (Num x) = Num (- x)"
| "negate PosInfinity = NegInfinity"
| "negate NegInfinity = PosInfinity"

definition parseFloat :: "string \<Rightarrow> jsnum" where
  "parseFloat s =
     (case dropWhile js_whitespace s of
        [] \<Rightarrow> NaN
      | c # r \<Rightarrow>
          if c = CHR ''-'' then negate (unsigned_literal r)
          else if c = CHR ''+'' then unsigned_literal r
          else unsigned_literal (c # r))"

definition isNaN :: "jsnum \<Rightarrow> bool" where
  "isNaN x = (x = NaN)"

definition json_of_number :: "jsnum \<Rightarrow> json" where
  \<comment> \<open>\<^verbatim>\<open>JSON.stringify\<close> writes NaN and the infinities as null.\<close>
  "json_of_number x = (case x of Num r \<Rightarrow> JNumber r | _ \<Rightarrow> JNull)"

section \<open>The input form (component Home)\<close>

text \<open>
  \<^verbatim>\<open>formData\<close> is an object with seven string properties that are always present;
  \<^verbatim>\<open>{ ...prev, [name]: value }\<close> can add further properties, kept in insertion order in
  \<open>other_props\<close>.
\<close>

record form_data =
  idea :: string
  industry :: string
  geography :: string
  customer_type :: string
  business_model :: string
  price_assumption :: string
  notes_field :: string
  other_props :: "(string \<times> string) list"

definition EXAMPLE_DATA :: form_data where
  "EXAMPLE_DATA = \<lparr>
     idea = ''AI-powered personal finance management app that helps consumers optimize savings and investments with automated recommendations'',
     industry = ''FinTech'',
     geography = ''European Union'',
     customer_type = ''Consumer'',
     business_model = ''SaaS'',
     price_assumption = ''9.99'',
     notes_field = ''Focus on GDPR compliance and multi-currency support. Target users aged 25-45 with disposable income.'',
     other_props = [] \<rparr>"

definition initial_form :: form_data where
  "initial_form = \<lparr> idea = [], industry = [], geography = [], customer_type = [],
     business_model = [], price_assumption = [], notes_field = [], other_props = [] \<rparr>"

definition get_prop :: "form_data \<Rightarrow> string \<Rightarrow> string option" where
  "get_prop fd k =
     (if k = ''idea'' then Some (idea fd)
      else if k = ''industry'' then Some (industry fd)
      else if k = ''geography'' then Some (geography fd)
      else if k = ''customer_type'' then Some (customer_type fd)
      else if k = ''business_model'' then Some (business_model fd)
      else if k = ''price_assumption'' then Some (price_assumption fd)
      else if k = ''notes'' then Some (notes_field fd)
      else map_of (other_props fd) k)"

definition set_prop :: "string \<Rightarrow> string \<Rightarrow> form_data \<Rightarrow> form_data" where
  \<comment> \<open>\<^verbatim>\<open>{ ...prev, [name]: value }\<close>\<close>
  "set_prop k v fd =
     (if k = ''idea'' then fd\<lparr>idea := v\<rparr>
      else if k = ''industry'' then fd\<lparr>industry := v\<rparr>
      else if k = ''geography'' then fd\<lparr>geography := v\<rparr>
      else if k = ''customer_type'' then fd\<lparr>customer_type := v\<rparr>
      else if k = ''business_model'' then fd\<lparr>business_model := v\<rparr>
      else if k = ''price_assumption'' then fd\<lparr>price_assumption := v\<rparr>
      else if k = ''notes'' then fd\<lparr>notes_field := v\<rparr>
      else fd\<lparr>other_props := AList.update k v (other_props fd)\<rparr>)"

definition props_of :: "form_data \<Rightarrow> json_object" where
  \<comment> \<open>The own properties of \<^verbatim>\<open>formData\<close>, in insertion order.\<close>
  "props_of fd =
     [(''idea'', JString (idea fd)),
      (''industry'', JString (industry fd)),
      (''geography'', JString (geography fd)),
      (''customer_type'', JString (customer_type fd)),
      (''business_model'', JString (business_model fd)),
      (''price_assumption'', JString (price_assumption fd)),
      (''notes'', JString (notes_field fd))]
     @ map (\<lambda>(k, v). (k, JString v)) (other_props fd)"

record home_state =
  formData :: form_data
  errors :: "(string \<times> string) list"
  isLoading :: bool

text \<open>
  The part of the browser the form touches: \<^verbatim>\<open>localStorage\<close> (each value is the JSON
  document that was written), the router's location, and whether
  \<^verbatim>\<open>localStorage.setItem\<close> throws (quota exceeded, storage disabled).
\<close>

record browser =
  localStorage :: "string \<rightharpoonup> json_object"
  location :: string
  setItem_throws :: bool

definition initial_home :: home_state where
  "initial_home = \<lparr> formData = initial_form, errors = [], isLoading = False \<rparr>"

definition truthy :: "string option \<Rightarrow> bool" where
  \<comment> \<open>\<^verbatim>\<open>undefined\<close> and the empty string are falsy.\<close>
  "truthy x = (case x of None \<Rightarrow> False | Some s \<Rightarrow> s \<noteq> [])"

definition handleChange :: "string \<Rightarrow> string \<Rightarrow> home_state \<Rightarrow> home_state" where
  "handleChange name val st =
     st\<lparr> formData := set_prop name val (formData st),
         errors := (if truthy (map_of (errors st) name)
                    then AList.delete name (errors st)
                    else errors st) \<rparr>"

definition validateForm :: "form_data \<Rightarrow> (string \<times> string) list \<times> bool" where
  "validateForm fd =
     (let e0 = [];
          e1 = (if trim (idea fd) = []
                then AList.update ''idea'' ''Startup idea is required'' e0 else e0);
          e2 = (if trim (industry fd) = []
                then AList.update ''industry'' ''Industry is required'' e1 else e1);
          e3 = (if geography fd = []
                then AList.update ''geography'' ''Geography is required'' e2 else e2);
          e4 = (if customer_type fd = []
                then AList.update ''customer_type'' ''Customer type is required'' e3 else e3);
          e5 = (if business_model fd = []
                then AList.update ''business_model'' ''Business model is required'' e4 else e4);
          e6 = (if price_assumption fd \<noteq> [] \<and> isNaN (parseFloat (price_assumption fd))
                then AList.update ''price_assumption''
                       ''Price assumption must be a valid number'' e5
                else e5)
      in (e6, length e6 = 0))"

definition requestData :: "form_data \<Rightarrow> json_object" where
  \<comment> \<open>\<^verbatim>\<open>{ ...formData, price_assumption: ..., debug: false }\<close>\<close>
  "requestData fd =
     AList.update ''debug'' (JBool False)
       (AList.update ''price_assumption''
          (if price_assumption fd \<noteq> []
           then json_of_number (parseFloat (price_assumption fd)) else JNull)
          (props_of fd))"

definition handleSubmit :: "home_state \<times> browser \<Rightarrow> home_state \<times> browser" where
  "handleSubmit sb =
     (let st = fst sb; br = snd sb;
          (newErrors, ok) = validateForm (formData st);
          st1 = st\<lparr>errors := newErrors\<rparr>
      in if \<not> ok then (st1, br)
         else
           let st2 = st1\<lparr>isLoading := True\<rparr> in
           if setItem_throws br then (st2\<lparr>isLoading := False\<rparr>, br)
           else (st2, br\<lparr> localStorage :=
                            (localStorage br)(''atlas_request'' \<mapsto> requestData (formData st)),
                          location := ''/report'' \<rparr>))"

definition handleTryExample :: "home_state \<Rightarrow> home_state" where
  "handleTryExample st = st\<lparr> formData := EXAMPLE_DATA, errors := [] \<rparr>"

definition geographyOtherChange :: "string \<Rightarrow> home_state \<Rightarrow> home_state" where
  \<comment> \<open>the inline \<^verbatim>\<open>onChange\<close> of the input named \<^verbatim>\<open>geography_other\<close>\<close>
  "geographyOtherChange val st = st\<lparr> formData := (formData st)\<lparr>geography := val\<rparr> \<rparr>"

subsection \<open>The controls of the form and the submit event\<close>

text \<open>
  \<open>handleSubmit\<close> is called only by the submit event of the form, and the form has no
  \<^verbatim>\<open>noValidate\<close>: the browser fires the event only when no control fails its
  constraints. The controls are controlled by \<open>formData\<close>. Five carry \<^verbatim>\<open>required\<close>;
  the price is \<^verbatim>\<open><input type="number" min="0" step="0.01">\<close>. The value of a number
  input is always the empty string or a valid floating-point number (anything else is
  sanitized to the empty string), and the control suffers from an underflow when its value
  reads as a number below the minimum. The \<^verbatim>\<open>step\<close> constraint and the bad-input state
  are left out, so the model fires the event at least as often as a browser does.
\<close>

definition exponent_ok :: "string \<Rightarrow> bool" where
  \<comment> \<open>\<open>e\<close> or \<open>E\<close>, an optional sign, then one or more digits and nothing else\<close>
  "exponent_ok s =
     (case s of
        [] \<Rightarrow> False
      | c # r \<Rightarrow>
          (c = CHR ''e'' \<or> c = CHR ''E'') \<and>
          (let ds = (case r of
                       [] \<Rightarrow> []
                     | x # r' \<Rightarrow> if x = CHR ''-'' \<or> x = CHR ''+'' then r' else r)
           in ds \<noteq> [] \<and> list_all is_digit ds))"

definition valid_float_string :: "string \<Rightarrow> bool" where
  \<comment> \<open>HTML's valid floating-point number: an optional minus, digits or a fraction or both,
     an optional exponent\<close>
  "valid_float_string s =
     (let u = (case s of [] \<Rightarrow> [] | c # r \<Rightarrow> if c = CHR ''-'' then r else s);
          ip = takeWhile is_digit u; r1 = dropWhile is_digit u
      in case r1 of
           [] \<Rightarrow> ip \<noteq> []
         | c # r2 \<Rightarrow>
             if c = CHR ''.'' then
               (let fp = takeWhile is_digit r2; r3 = dropWhile is_digit r2
                in fp \<noteq> [] \<and> (r3 = [] \<or> exponent_ok r3))
             else ip \<noteq> [] \<and> exponent_ok r1)"

definition number_input_value :: "string \<Rightarrow> string" where
  \<comment> \<open>the value sanitization of \<^verbatim>\<open>type="number"\<close>\<close>
  "number_input_value raw = (if valid_float_string raw then raw else [])"

definition rangeUnderflow :: "string \<Rightarrow> bool" where
  \<comment> \<open>\<^verbatim>\<open>min="0"\<close>: the value reads as a number below zero. On a valid floating-point
     number the browser's parser and \<^verbatim>\<open>parseFloat\<close> read the same number; a value
     beyond the doubles is no number and does not underflow.\<close>
  "rangeUnderflow v =
     (valid_float_string v \<and> (case parseFloat v of Num x \<Rightarrow> x < 0 | _ \<Rightarrow> False))"

definition form_controls_valid :: "form_data \<Rightarrow> bool" where
  "form_controls_valid fd =
     (idea fd \<noteq> [] \<and> industry fd \<noteq> [] \<and> geography fd \<noteq> [] \<and> customer_type fd \<noteq> []
      \<and> business_model fd \<noteq> []
      \<and> \<not> rangeUnderflow (number_input_value (price_assumption fd)))"

definition submit_event :: "home_state \<times> browser \<Rightarrow> home_state \<times> browser" where
  \<comment> \<open>\<^verbatim>\<open><form onSubmit={handleSubmit}>\<close>, on a click of the submit button\<close>
  "submit_event sb = (if form_controls_valid (formData (fst sb)) then handleSubmit sb else sb)"

definition price_input_change :: "string \<Rightarrow> home_state \<Rightarrow> home_state" where
  \<comment> \<open>the change event of the price control: \<^verbatim>\<open>e.target.value\<close> is the sanitized value\<close>
  "price_input_change raw st = handleChange ''price_assumption'' (number_input_value raw) st"

section \<open>The analysis response (interface AnalyzeResponse)\<close>

datatype verdict = GO | NO_GO | CONDITIONAL

record range_estimate =
  r_min :: real
  r_base :: real
  r_max :: real
  r_method :: "string option"
  r_assumptions :: "string list"

record market_model =
  tam :: range_estimate
  sam :: range_estimate
  som :: range_estimate

record competitor =
  comp_name :: string
  positioning :: string
  pricing :: string
  comp_geography :: string
  differentiator :: string
  source_url :: string

record risk_lists =
  risk_market :: "string list"
  risk_competition :: "string list"
  risk_regulatory :: "string list"
  risk_distribution :: "string list"

record source_entry =
  title :: string
  url :: string
  excerpt :: string

record validation_test =
  test_name :: string
  test_method :: string
  success_threshold :: string

record scenario =
  scen_name :: string
  scen_market :: market_model

record scenario_set =
  bear :: "scenario option"
  base :: "scenario option"
  bull :: "scenario option"

record sensitivity_result =
  assumption_name :: string
  base_som :: real
  impact_minus_30pct :: real
  impact_plus_30pct :: real
  impact_magnitude :: real

record ledger_entry =
  claim_id :: string
  claim_text :: string
  claim_type :: string
  claim_value :: "real option"
  claim_unit :: "string option"
  claim_source_url :: string
  claim_excerpt :: string
  retrieved_at :: string
  credibility_score :: string
  claim_confidence :: string

record analyze_response =
  verdict :: verdict
  confidence_score :: int
  executive_summary :: "string list"
  market :: market_model
  competitors :: "competitor list"
  risks :: risk_lists
  assumptions :: "string list"
  disconfirming_evidence :: "string list"
  sources :: "source_entry list"
  key_unknowns :: "string list"
  next_7_days_tests :: "validation_test list"
  scenarios :: scenario_set
  sensitivity_analysis :: "sensitivity_result list"
  evidence_ledger :: "ledger_entry list option"

section \<open>The report page (component ReportPage)\<close>

text \<open>
  The state of the page that decides what is rendered. The PDF download, the clipboard
  copy and the currency formatting only change labels inside a section and are left out.
\<close>

record report_state =
  rp_data :: "analyze_response option"
  rp_requestData :: "json_object option"
  rp_isLoading :: bool
  rp_error :: "string option"
  rp_debugMode :: bool
  rp_showRawJson :: bool

definition initial_report :: report_state where
  "initial_report = \<lparr> rp_data = None, rp_requestData = None, rp_isLoading = True,
     rp_error = None, rp_debugMode = False, rp_showRawJson = False \<rparr>"

definition js_truthy :: "json option \<Rightarrow> bool" where
  "js_truthy x =
     (case x of
        None \<Rightarrow> False
      | Some JNull \<Rightarrow> False
      | Some (JBool b) \<Rightarrow> b
      | Some (JNumber r) \<Rightarrow> r \<noteq> 0
      | Some (JString s) \<Rightarrow> s \<noteq> [])"

definition posted_price :: "json option \<Rightarrow> json" where
  \<comment> \<open>\<^verbatim>\<open>p ? parseFloat(p) : null\<close>, as JSON.stringify writes it\<close>
  "posted_price x =
     (if js_truthy x then
        (case x of
           Some (JNumber r) \<Rightarrow> JNumber r
         | Some (JString s) \<Rightarrow> json_of_number (parseFloat s)
         | _ \<Rightarrow> JNull)
      else JNull)"

definition runAnalysis ::
  "(json_object \<Rightarrow> string + analyze_response) \<Rightarrow> report_state \<times> browser
     \<Rightarrow> report_state \<times> browser" where
  \<comment> \<open>\<open>api\<close> is the POST to \<^verbatim>\<open>/analyze\<close>: \<open>Inl\<close> carries the message of the error thrown\<close>
  "runAnalysis api sb =
     (let st = fst sb; br = snd sb in
      case localStorage br ''atlas_request'' of
        None \<Rightarrow> (st\<lparr>rp_isLoading := False\<rparr>, br\<lparr>location := ''/''\<rparr>)
      | Some parsedRequest \<Rightarrow>
          let st1 = st\<lparr>rp_requestData := Some parsedRequest\<rparr> in
          (case api (AList.update ''price_assumption''
                       (posted_price (map_of parsedRequest ''price_assumption''))
                       parsedRequest) of
             Inl msg \<Rightarrow> (st1\<lparr>rp_error := Some msg, rp_isLoading := False\<rparr>, br)
           | Inr result \<Rightarrow>
               (st1\<lparr> rp_data := Some result,
                     rp_debugMode := js_truthy (map_of parsedRequest ''debug''),
                     rp_isLoading := False \<rparr>, br)))"

definition setDebugMode :: "bool \<Rightarrow> report_state \<Rightarrow> report_state" where
  "setDebugMode b st = st\<lparr>rp_debugMode := b\<rparr>"

record competitor_row =
  row_cells :: "string list"
  link_href :: string
  link_label :: string

record source_card =
  card_title :: string
  card_badge :: "string option"
  card_excerpt :: "string option"
  card_url :: string

datatype page_section =
    Header
  | Idea_Title string
  | Verdict_And_Confidence verdict int
  | Executive_Summary "string list"
  | Market_Cards market_model
  | Scenarios_Table "(string \<times> real \<times> real \<times> real) list"
  | Competitors_Table "competitor_row list"
  | Risks_Section risk_lists
  | Assumptions_Section "string list"
  | Disconfirming_Section "string list"
  | Sources_Section "source_card list"
  | Key_Unknowns_Section "string list"
  | Next_Tests_Section "validation_test list"
  | Raw_Json_Section bool
  | Evidence_Ledger_Section "ledger_entry list"
  | Action_Buttons

datatype view = Loading_View | Failed_View string | Memo_View "page_section list"

definition shown_if :: "bool \<Rightarrow> page_section \<Rightarrow> page_section list" where
  \<comment> \<open>\<^verbatim>\<open>{cond && (<section/>)}\<close>\<close>
  "shown_if c s = (if c then [s] else [])"

definition scenario_row :: "string \<Rightarrow> scenario option \<Rightarrow> (string \<times> real \<times> real \<times> real) list" where
  "scenario_row label sc =
     (case sc of
        None \<Rightarrow> []
      | Some x \<Rightarrow> [(label, r_base (tam (scen_market x)), r_base (sam (scen_market x)),
                    r_base (som (scen_market x)))])"

definition competitor_row_of :: "competitor \<Rightarrow> competitor_row" where
  "competitor_row_of c =
     \<lparr> row_cells = [comp_name c, positioning c, pricing c, comp_geography c, differentiator c],
       link_href = source_url c,
       link_label = ''Link'' \<rparr>"

definition source_card_of :: "bool \<Rightarrow> ledger_entry list option \<Rightarrow> source_entry \<Rightarrow> source_card" where
  "source_card_of debugMode ledger src =
     (let sourceClaim =
            (case ledger of
               None \<Rightarrow> None
             | Some l \<Rightarrow> find (\<lambda>c. claim_source_url c = url src \<and> claim_type c = ''source'') l);
          credibility = map_option credibility_score sourceClaim
      in \<lparr> card_title = title src,
           card_badge = (if debugMode \<and> truthy credibility then credibility else None),
           card_excerpt = (if excerpt src \<noteq> [] then Some (excerpt src) else None),
           card_url = url src \<rparr>)"

definition debug_sections :: "bool \<Rightarrow> analyze_response \<Rightarrow> page_section list" where
  "debug_sections showRawJson d =
     [Raw_Json_Section showRawJson]
     @ (case evidence_ledger d of
          None \<Rightarrow> []
        | Some l \<Rightarrow> shown_if (length l > 0) (Evidence_Ledger_Section l))"

definition memo_sections :: "report_state \<Rightarrow> analyze_response \<Rightarrow> page_section list" where
  "memo_sections st d =
     [Header]
     @ (case rp_requestData st of
          None \<Rightarrow> []
        | Some req \<Rightarrow>
            (case map_of req ''idea'' of
               Some (JString s) \<Rightarrow> shown_if (s \<noteq> []) (Idea_Title s)
             | _ \<Rightarrow> []))
     @ [Verdict_And_Confidence (verdict d) (confidence_score d),
        Executive_Summary (executive_summary d),
        Market_Cards (market d)]
     @ shown_if (bear (scenarios d) \<noteq> None \<or> base (scenarios d) \<noteq> None
                 \<or> bull (scenarios d) \<noteq> None)
         (Scenarios_Table (scenario_row ''Bear'' (bear (scenarios d))
                           @ scenario_row ''Base'' (base (scenarios d))
                           @ scenario_row ''Bull'' (bull (scenarios d))))
     @ shown_if (length (competitors d) > 0)
         (Competitors_Table (map competitor_row_of (competitors d)))
     @ [Risks_Section (risks d)]
     @ shown_if (length (assumptions d) > 0) (Assumptions_Section (assumptions d))
     @ shown_if (length (disconfirming_evidence d) > 0)
         (Disconfirming_Section (disconfirming_evidence d))
     @ [Sources_Section (map (source_card_of (rp_debugMode st) (evidence_ledger d)) (sources d))]
     @ shown_if (length (key_unknowns d) > 0) (Key_Unknowns_Section (key_unknowns d))
     @ shown_if (length (next_7_days_tests d) > 0) (Next_Tests_Section (next_7_days_tests d))
     @ (if rp_debugMode st then debug_sections (rp_showRawJson st) d else [])
     @ [Action_Buttons]"

definition error_text :: "string option \<Rightarrow> string" where
  \<comment> \<open>\<^verbatim>\<open>{error || 'Unknown error occurred'}\<close>\<close>
  "error_text e =
     (case e of
        None \<Rightarrow> ''Unknown error occurred''
      | Some m \<Rightarrow> if m \<noteq> [] then m else ''Unknown error occurred'')"

definition ReportPage :: "report_state \<Rightarrow> view" where
  "ReportPage st =
     (if rp_isLoading st then Loading_View
      else
        (case rp_data st of
           None \<Rightarrow> Failed_View (error_text (rp_error st))
         | Some d \<Rightarrow>
             if truthy (rp_error st) then Failed_View (error_text (rp_error st))
             else Memo_View (memo_sections st d)))"

section \<open>The decision engine behind the response\<close>

text \<open>
  The engine that computes the response (market model builder, scenario generator,
  sensitivity analyzer, confidence scorer, response assembly) has no source file in the
  front end; its operations are modelled from the specification, each marked as such.
\<close>

datatype core_error = ValidationError

record builder_input =
  in_tam :: range_estimate
  in_addressable_share :: range_estimate
  in_obtainable_share :: range_estimate
  in_price :: "real option"

text \<open>
  Modelled from the spec: what the Builder's validation step (section 4.2) asks of a range,
  that none of its three numbers is negative.
\<close>

definition nonneg_range :: "range_estimate \<Rightarrow> bool" where
  "nonneg_range r = (0 \<le> r_min r \<and> 0 \<le> r_base r \<and> 0 \<le> r_max r)"

text \<open>
  Modelled from the spec: the Builder's interval multiplication (section 4.2), component
  by component: \<open>min \<times> min\<close>, \<open>base \<times> base\<close>, \<open>max \<times> max\<close>. The product carries the
  assumption statements of both factors.
\<close>

definition range_times :: "range_estimate \<Rightarrow> range_estimate \<Rightarrow> range_estimate" where
  "range_times a b =
     \<lparr> r_min = r_min a * r_min b,
       r_base = r_base a * r_base b,
       r_max = r_max a * r_max b,
       r_method = None,
       r_assumptions = r_assumptions a @ r_assumptions b \<rparr>"

text \<open>
  Modelled from the spec: the invariant of a Range Estimate (section 3),
  \<open>min \<le> base \<le> max\<close>.
\<close>

definition ordered_range :: "range_estimate \<Rightarrow> bool" where
  "ordered_range r = (r_min r \<le> r_base r \<and> r_base r \<le> r_max r)"

text \<open>
  Modelled from the spec: a funnel assumption is a share of the market before it
  (section 4.2: the addressable-market share of TAM, the obtainable-market share of SAM),
  so none of its three numbers exceeds the whole.
\<close>

definition at_most_one :: "range_estimate \<Rightarrow> bool" where
  "at_most_one r = (r_min r \<le> 1 \<and> r_base r \<le> 1 \<and> r_max r \<le> 1)"

text \<open>
  Modelled from the spec: the validation step of the Builder (section 4.2). Its inputs are
  Range Estimates and the optional price: it rejects a negative number, a range that is
  not a Range Estimate, and a funnel assumption that is not a share. The funnel
  monotonicity that section 3 makes an invariant of every Market Model rests on the last.
\<close>

definition validate_input :: "builder_input \<Rightarrow> bool" where
  "validate_input inp =
     (nonneg_range (in_tam inp) \<and> ordered_range (in_tam inp)
      \<and> nonneg_range (in_addressable_share inp) \<and> ordered_range (in_addressable_share inp)
      \<and> at_most_one (in_addressable_share inp)
      \<and> nonneg_range (in_obtainable_share inp) \<and> ordered_range (in_obtainable_share inp)
      \<and> at_most_one (in_obtainable_share inp)
      \<and> (case in_price inp of None \<Rightarrow> True | Some p \<Rightarrow> 0 \<le> p))"

text \<open>
  Modelled from the spec: the Market Model Builder (section 4.2), from the aggregated TAM
  on: after the validation step, \<open>sam = tam \<times> addressable_share\<close> and
  \<open>som = sam \<times> obtainable_share\<close>. The price assumption is validated and otherwise
  unused: it never enters the funnel. The aggregation of market-size claims into the TAM
  range is an input here.
\<close>

definition builder :: "builder_input \<Rightarrow> core_error + market_model" where
  "builder inp =
     (if validate_input inp
      then
        let s = range_times (in_tam inp) (in_addressable_share inp)
        in Inr \<lparr> tam = in_tam inp, sam = s,
                 som = range_times s (in_obtainable_share inp) \<rparr>
      else Inl ValidationError)"

datatype scenario_name = Bear | Base | Bull

text \<open>
  Modelled from the spec: the Scenario Generator (section 4.3) re-invokes the Builder for
  bear, base and bull; base is the unmodified Builder output. The documented multiplier
  sets are not in the specification and are the parameter \<open>mult\<close>.
\<close>

definition generate_scenarios ::
  "(scenario_name \<Rightarrow> builder_input \<Rightarrow> builder_input) \<Rightarrow> builder_input
     \<Rightarrow> core_error + scenario_set" where
  "generate_scenarios mult inp =
     (case builder (mult Bear inp) of
        Inl e \<Rightarrow> Inl e
      | Inr m_bear \<Rightarrow>
          (case builder inp of
             Inl e \<Rightarrow> Inl e
           | Inr m_base \<Rightarrow>
               (case builder (mult Bull inp) of
                  Inl e \<Rightarrow> Inl e
                | Inr m_bull \<Rightarrow>
                    Inr \<lparr> bear = Some \<lparr>scen_name = ''bear'', scen_market = m_bear\<rparr>,
                          base = Some \<lparr>scen_name = ''base'', scen_market = m_base\<rparr>,
                          bull = Some \<lparr>scen_name = ''bull'', scen_market = m_bull\<rparr> \<rparr>)))"

datatype tracked_assumption = Addressable_Share | Obtainable_Share | Price

text \<open>
  Modelled from the spec: the assumptions tracked for sensitivity (section 4.4: the funnel
  shares and the price) and the names under which their results are reported.
\<close>

fun tracked_name :: "tracked_assumption \<Rightarrow> string" where
  "tracked_name Addressable_Share = ''addressable_share''"
| "tracked_name Obtainable_Share = ''obtainable_share''"
| "tracked_name Price = ''price_assumption''"

text \<open>
  Modelled from the spec: a range with each of its numbers multiplied by a factor, as a
  multiplier set or a perturbation does.
\<close>

definition scale_range :: "real \<Rightarrow> range_estimate \<Rightarrow> range_estimate" where
  "scale_range f r = r\<lparr> r_min := f * r_min r, r_base := f * r_base r, r_max := f * r_max r \<rparr>"

text \<open>
  Modelled from the spec: a perturbation of one tracked assumption (section 4.4), all
  others held fixed.
\<close>

fun perturb :: "tracked_assumption \<Rightarrow> real \<Rightarrow> builder_input \<Rightarrow> builder_input" where
  "perturb Addressable_Share f inp =
     inp\<lparr>in_addressable_share := scale_range f (in_addressable_share inp)\<rparr>"
| "perturb Obtainable_Share f inp =
     inp\<lparr>in_obtainable_share := scale_range f (in_obtainable_share inp)\<rparr>"
| "perturb Price f inp = inp\<lparr>in_price := map_option (\<lambda>p. f * p) (in_price inp)\<rparr>"

text \<open>
  Modelled from the spec: \<open>som.base\<close> as recomputed by the Builder (section 4.4).
\<close>

definition som_base :: "builder_input \<Rightarrow> core_error + real" where
  "som_base inp = (case builder inp of Inl e \<Rightarrow> Inl e | Inr m \<Rightarrow> Inr (r_base (som m)))"

text \<open>
  Modelled from the spec: one Sensitivity Result (sections 3 and 4.4): the assumption is
  perturbed by -30% and +30%, \<open>som.base\<close> is recomputed by the Builder, and the magnitude
  is the larger absolute change.
\<close>

definition sensitivity_of :: "builder_input \<Rightarrow> tracked_assumption \<Rightarrow> core_error + sensitivity_result" where
  "sensitivity_of inp a =
     (case som_base inp of
        Inl e \<Rightarrow> Inl e
      | Inr b \<Rightarrow>
          (case som_base (perturb a (7 / 10) inp) of
             Inl e \<Rightarrow> Inl e
           | Inr lo \<Rightarrow>
               (case som_base (perturb a (13 / 10) inp) of
                  Inl e \<Rightarrow> Inl e
                | Inr hi \<Rightarrow>
                    Inr \<lparr> assumption_name = tracked_name a,
                          base_som = b,
                          impact_minus_30pct = lo,
                          impact_plus_30pct = hi,
                          impact_magnitude = max \<bar>b - lo\<bar> \<bar>b - hi\<bar> \<rparr>)))"

text \<open>
  Modelled from the spec: one Sensitivity Result per tracked assumption, in declaration
  order (section 4.4).
\<close>

fun sensitivity_all :: "builder_input \<Rightarrow> tracked_assumption list \<Rightarrow> core_error + sensitivity_result list" where
  "sensitivity_all inp [] = Inr []"
| "sensitivity_all inp (a # as) =
     (case sensitivity_of inp a of
        Inl e \<Rightarrow> Inl e
      | Inr r \<Rightarrow>
          (case sensitivity_all inp as of
             Inl e \<Rightarrow> Inl e
           | Inr rs \<Rightarrow> Inr (r # rs)))"

text \<open>
  Modelled from the spec: the Sensitivity Analyzer (section 4.4): the results of all
  tracked assumptions, sorted by magnitude, largest first, by a stable sort.
\<close>

definition sensitivity_analyzer :: "builder_input \<Rightarrow> tracked_assumption list \<Rightarrow> core_error + sensitivity_result list" where
  "sensitivity_analyzer inp tracked =
     (case sensitivity_all inp tracked of
        Inl e \<Rightarrow> Inl e
      | Inr rs \<Rightarrow> Inr (sort_key (\<lambda>r. - impact_magnitude r) rs))"

record evidence_profile =
  high_sources :: nat
  medium_sources :: nat
  low_sources :: nat
  assumption_based_segments :: nat
  risk_count :: nat
  disconfirming_count :: nat

text \<open>
  Modelled from the spec: the Confidence Scorer (section 4.6). The weighting formula is
  left open by the specification and is the parameter \<open>weighting\<close>; its output is clamped
  to the interval from 0 to 100.
\<close>

definition confidence_scorer :: "(evidence_profile \<Rightarrow> int) \<Rightarrow> evidence_profile \<Rightarrow> int" where
  "confidence_scorer weighting p = max 0 (min 100 (weighting p))"

text \<open>
  Modelled from the spec: a competitor as the excluded collaborator hands it over
  (section 6); its source may be missing.
\<close>

record competitor_candidate =
  cand_name :: string
  cand_positioning :: string
  cand_pricing :: string
  cand_geography :: string
  cand_differentiator :: string
  cand_source_url :: "string option"

text \<open>
  Modelled from the spec: each entry of \<open>competitors\<close> must carry a \<open>source_url\<close>
  (section 6), so a candidate enters the response only with a source that is present and
  non-empty; the others are left out, in keeping with section 7 (missing evidence degrades
  the result and is no error).
\<close>

fun sourced_competitors :: "competitor_candidate list \<Rightarrow> competitor list" where
  "sourced_competitors [] = []"
| "sourced_competitors (c # cs) =
     (case cand_source_url c of
        None \<Rightarrow> sourced_competitors cs
      | Some u \<Rightarrow>
          if u = [] then sourced_competitors cs
          else \<lparr> comp_name = cand_name c, positioning = cand_positioning c,
                 pricing = cand_pricing c, comp_geography = cand_geography c,
                 differentiator = cand_differentiator c, source_url = u \<rparr>
               # sourced_competitors cs)"

record analysis_config =
  multipliers :: "scenario_name \<Rightarrow> builder_input \<Rightarrow> builder_input"
  tracked_assumptions :: "tracked_assumption list"
  weighting_formula :: "evidence_profile \<Rightarrow> int"

record analysis_input =
  req_debug :: bool
  req_funnel :: builder_input
  req_ledger :: "ledger_entry list"
  req_profile :: evidence_profile
  req_competitors :: "competitor_candidate list"
  collaborator_fields :: analyze_response

text \<open>
  Modelled from the spec: the assembly of the response (sections 2 and 6). The Builder runs
  first; scenarios, sensitivity results and the confidence score are computed from its
  input; the competitors are the sourced candidates; the Evidence Ledger is included when
  \<open>debug\<close> was requested. The other fields owned by collaborators (verdict, summary,
  risks, sources, tests) are taken from \<open>collaborator_fields\<close> unchanged.
\<close>

definition analyze :: "analysis_config \<Rightarrow> analysis_input \<Rightarrow> core_error + analyze_response" where
  "analyze cfg inp =
     (case builder (req_funnel inp) of
        Inl e \<Rightarrow> Inl e
      | Inr m \<Rightarrow>
          (case generate_scenarios (multipliers cfg) (req_funnel inp) of
             Inl e \<Rightarrow> Inl e
           | Inr sc \<Rightarrow>
               (case sensitivity_analyzer (req_funnel inp) (tracked_assumptions cfg) of
                  Inl e \<Rightarrow> Inl e
                | Inr sens \<Rightarrow>
                    Inr ((collaborator_fields inp)
                      \<lparr> confidence_score :=
                          confidence_scorer (weighting_formula cfg) (req_profile inp),
                        market := m,
                        competitors := sourced_competitors (req_competitors inp),
                        scenarios := sc,
                        sensitivity_analysis := sens,
                        evidence_ledger :=
                          (if req_debug inp then Some (req_ledger inp) else None) \<rparr>))))"

section \<open>Properties and sample inputs\<close>

text \<open>
  A well-formed form input, in the words of the specification: idea and industry contain
  a character that is not white space, the three selections are non-empty, and the price
  is empty or parses as a number.
\<close>

definition well_formed_input :: "form_data \<Rightarrow> bool" where
  "well_formed_input fd =
     ((\<exists>c\<in>set (idea fd). \<not> js_whitespace c) \<and>
      (\<exists>c\<in>set (industry fd). \<not> js_whitespace c) \<and>
      geography fd \<noteq> [] \<and> customer_type fd \<noteq> [] \<and> business_model fd \<noteq> [] \<and>
      (price_assumption fd = [] \<or> parseFloat (price_assumption fd) \<noteq> NaN))"

text \<open>The error expected for a field: present exactly when that field is malformed.\<close>

definition field_error :: "form_data \<Rightarrow> string \<Rightarrow> string option" where
  "field_error fd k =
     (if price_assumption fd \<noteq> [] \<and> parseFloat (price_assumption fd) = NaN
           \<and> k = ''price_assumption''
        then Some ''Price assumption must be a valid number''
      else if business_model fd = [] \<and> k = ''business_model''
        then Some ''Business model is required''
      else if customer_type fd = [] \<and> k = ''customer_type''
        then Some ''Customer type is required''
      else if geography fd = [] \<and> k = ''geography''
        then Some ''Geography is required''
      else if (\<forall>c\<in>set (industry fd). js_whitespace c) \<and> k = ''industry''
        then Some ''Industry is required''
      else if (\<forall>c\<in>set (idea fd). js_whitespace c) \<and> k = ''idea''
        then Some ''Startup idea is required''
      else None)"

definition messages_nonempty :: "(string \<times> string) list \<Rightarrow> bool" where
  "messages_nonempty errs = (\<forall>p\<in>set errs. snd p \<noteq> [])"


definition sample_form :: form_data where
  "sample_form = \<lparr> idea = ''Solar kiosk'', industry = ''Energy'', geography = ''Global'',
     customer_type = ''SMB'', business_model = ''SaaS'', price_assumption = ''12.5'',
     notes_field = [], other_props = [] \<rparr>"

definition sample_home :: home_state where
  "sample_home = \<lparr> formData = sample_form, errors = [], isLoading = False \<rparr>"

definition negative_price_home :: home_state where
  \<comment> \<open>the example is loaded, then \<open>-5\<close> is typed into the price control\<close>
  "negative_price_home = price_input_change ''-5'' (handleTryExample initial_home)"

text \<open>
  The price property of a stored request as the specification wants it: null or a
  non-negative number.
\<close>

definition null_or_nonnegative :: "json option \<Rightarrow> bool" where
  "null_or_nonnegative x =
     (case x of Some JNull \<Rightarrow> True | Some (JNumber r) \<Rightarrow> 0 \<le> r | _ \<Rightarrow> False)"

text \<open>The price of the form is a value of its number control.\<close>

definition price_from_control :: "form_data \<Rightarrow> bool" where
  "price_from_control fd = (number_input_value (price_assumption fd) = price_assumption fd)"

definition fresh_browser :: browser where
  "fresh_browser = \<lparr> localStorage = Map.empty, location = ''/'', setItem_throws = False \<rparr>"

definition full_browser :: browser where
  \<comment> \<open>a browser whose storage refuses the write\<close>
  "full_browser = \<lparr> localStorage = Map.empty, location = ''/'', setItem_throws = True \<rparr>"

definition range_of :: "real \<Rightarrow> real \<Rightarrow> real \<Rightarrow> range_estimate" where
  "range_of lo mid hi =
     \<lparr> r_min = lo, r_base = mid, r_max = hi, r_method = None, r_assumptions = [] \<rparr>"

definition sample_funnel :: builder_input where
  "sample_funnel =
     \<lparr> in_tam = range_of 900 1000 1200,
       in_addressable_share = range_of (1 / 5) (3 / 10) (2 / 5),
       in_obtainable_share = range_of (1 / 20) (1 / 10) (1 / 5),
       in_price = Some 10 \<rparr>"

definition oversized_funnel :: builder_input where
  "oversized_funnel = sample_funnel\<lparr>in_addressable_share := range_of (3 / 2) (3 / 2) (3 / 2)\<rparr>"

fun sample_multipliers :: "scenario_name \<Rightarrow> builder_input \<Rightarrow> builder_input" where
  "sample_multipliers Bear inp =
     inp\<lparr> in_addressable_share := scale_range (4 / 5) (in_addressable_share inp),
          in_obtainable_share := scale_range (4 / 5) (in_obtainable_share inp) \<rparr>"
| "sample_multipliers Base inp = inp"
| "sample_multipliers Bull inp =
     inp\<lparr> in_addressable_share := scale_range (6 / 5) (in_addressable_share inp),
          in_obtainable_share := scale_range (6 / 5) (in_obtainable_share inp) \<rparr>"

definition sample_weighting :: "evidence_profile \<Rightarrow> int" where
  "sample_weighting p =
     40 + 20 * int (high_sources p) + 10 * int (medium_sources p) + 5 * int (low_sources p)
     - 15 * int (assumption_based_segments p) - 5 * int (risk_count p)
     - 10 * int (disconfirming_count p)"

definition sample_config :: analysis_config where
  "sample_config =
     \<lparr> multipliers = sample_multipliers,
       tracked_assumptions = [Addressable_Share, Obtainable_Share, Price],
       weighting_formula = sample_weighting \<rparr>"

definition sample_competitor :: competitor where
  "sample_competitor =
     \<lparr> comp_name = ''Acme'', positioning = ''Budget'', pricing = ''5/mo'',
       comp_geography = ''Global'', differentiator = ''Price'',
       source_url = ''https://acme.example'' \<rparr>"

definition sample_claim :: ledger_entry where
  "sample_claim =
     \<lparr> claim_id = ''c1'', claim_text = ''Market is 1000'', claim_type = ''market_size'',
       claim_value = Some 1000, claim_unit = Some ''USD'',
       claim_source_url = ''https://data.example'', claim_excerpt = ''1000'',
       retrieved_at = ''2024-01-01'', credibility_score = ''high'',
       claim_confidence = ''high'' \<rparr>"

definition sample_fields :: analyze_response where
  "sample_fields =
     \<lparr> verdict = CONDITIONAL, confidence_score = 0, executive_summary = [],
       market = \<lparr> tam = range_of 0 0 0, sam = range_of 0 0 0, som = range_of 0 0 0 \<rparr>,
       competitors = [sample_competitor],
       risks = \<lparr> risk_market = [], risk_competition = [], risk_regulatory = [],
                 risk_distribution = [] \<rparr>,
       assumptions = [], disconfirming_evidence = [], sources = [], key_unknowns = [],
       next_7_days_tests = [],
       scenarios = \<lparr> bear = None, base = None, bull = None \<rparr>,
       sensitivity_analysis = [],
       evidence_ledger = None \<rparr>"

definition sample_profile :: evidence_profile where
  "sample_profile =
     \<lparr> high_sources = 4, medium_sources = 1, low_sources = 0,
       assumption_based_segments = 0, risk_count = 1, disconfirming_count = 0 \<rparr>"

definition sample_candidates :: "competitor_candidate list" where
  "sample_candidates =
     [\<lparr> cand_name = ''Acme'', cand_positioning = ''Budget'', cand_pricing = ''5/mo'',
        cand_geography = ''Global'', cand_differentiator = ''Price'',
        cand_source_url = Some ''https://acme.example'' \<rparr>,
      \<lparr> cand_name = ''Rumour'', cand_positioning = ''Unknown'', cand_pricing = ''?'',
        cand_geography = ''Global'', cand_differentiator = ''?'',
        cand_source_url = None \<rparr>,
      \<lparr> cand_name = ''Blank'', cand_positioning = ''Unknown'', cand_pricing = ''?'',
        cand_geography = ''Global'', cand_differentiator = ''?'',
        cand_source_url = Some [] \<rparr>]"

definition sample_input :: analysis_input where
  "sample_input =
     \<lparr> req_debug = True, req_funnel = sample_funnel, req_ledger = [sample_claim],
       req_profile = sample_profile, req_competitors = sample_candidates,
       collaborator_fields = sample_fields \<rparr>"

definition sample_report :: report_state where
  "sample_report =
     \<lparr> rp_data = Some (sample_fields\<lparr>evidence_ledger := Some [sample_claim]\<rparr>),
       rp_requestData = None, rp_isLoading = False, rp_error = None,
       rp_debugMode = True, rp_showRawJson = False \<rparr>"

definition flagged_home :: home_state where
  "flagged_home =
     \<lparr> formData = initial_form,
       errors = [(''idea'', ''Startup idea is required''),
                 (''industry'', ''Industry is required'')],
       isLoading = False \<rparr>"

definition stored_request :: "browser \<Rightarrow> string \<Rightarrow> json option" where
  \<comment> \<open>A property of the request held in \<^verbatim>\<open>localStorage\<close>, if there is one.\<close>
  "stored_request br k =
     (case localStorage br ''atlas_request'' of None \<Rightarrow> None | Some r \<Rightarrow> map_of r k)"

section \<open>Facts about the input form\<close>

lemma dropWhile_all_iff:
  "(\<forall>x\<in>set (dropWhile P xs). P x) \<longleftrightarrow> (\<forall>x\<in>set xs. P x)"
proof
  assume a: "\<forall>x\<in>set (dropWhile P xs). P x"
  have "dropWhile P xs = []"
  proof (rule ccontr)
    assume ne: "dropWhile P xs \<noteq> []"
    then have "\<not> P (hd (dropWhile P xs))" by (rule hd_dropWhile)
    moreover have "hd (dropWhile P xs) \<in> set (dropWhile P xs)" using ne by simp
    ultimately show False using a by blast
  qed
  then show "\<forall>x\<in>set xs. P x" by (simp add: dropWhile_eq_Nil_conv)
next
  assume "\<forall>x\<in>set xs. P x"
  then show "\<forall>x\<in>set (dropWhile P xs). P x"
    by (blast dest: set_dropWhileD)
qed

lemma trim_Nil_iff: "trim s = [] \<longleftrightarrow> (\<forall>c\<in>set s. js_whitespace c)"
  by (simp add: trim_def dropWhile_eq_Nil_conv dropWhile_all_iff)

lemma if_update_Nil:
  "((if c then AList.update k v al else al) = []) = (\<not> c \<and> al = [])"
  by simp

lemma map_of_if_update:
  "map_of (if c then AList.update k v al else al) k' =
     (if c \<and> k' = k then Some v else map_of al k')"
  by (simp add: update_conv')

lemma validateForm_snd: "snd (validateForm fd) = well_formed_input fd"
  unfolding validateForm_def Let_def well_formed_input_def snd_conv length_0_conv
    if_update_Nil trim_Nil_iff isNaN_def
  by blast

lemma validateForm_fst: "map_of (fst (validateForm fd)) k = field_error fd k"
  unfolding validateForm_def Let_def fst_conv map_of_if_update field_error_def
    trim_Nil_iff isNaN_def
  by (simp split del: if_split cong: if_cong)

lemma validateForm_Nil: "snd (validateForm fd) = (fst (validateForm fd) = [])"
  by (simp add: validateForm_def Let_def split del: if_split)

lemma messages_nonempty_if_update:
  "messages_nonempty al \<Longrightarrow> v \<noteq> [] \<Longrightarrow>
   messages_nonempty (if c then AList.update k v al else al)"
  unfolding messages_nonempty_def by (induction al) auto

lemma validateForm_messages: "messages_nonempty (fst (validateForm fd))"
proof -
  have base: "messages_nonempty []" by (simp add: messages_nonempty_def)
  show ?thesis
    unfolding validateForm_def Let_def fst_conv
    by (intro messages_nonempty_if_update base) simp_all
qed

lemma messages_nonempty_delete:
  "messages_nonempty al \<Longrightarrow> messages_nonempty (AList.delete k al)"
  by (auto simp add: messages_nonempty_def AList.delete_eq)

lemma handleChange_messages:
  "messages_nonempty (errors st) \<Longrightarrow> messages_nonempty (errors (handleChange name val st))"
  by (simp add: handleChange_def messages_nonempty_delete)

lemma handleSubmit_valid:
  "snd (validateForm (formData st)) \<Longrightarrow> \<not> setItem_throws br \<Longrightarrow>
   handleSubmit (st, br) =
     (st\<lparr>errors := fst (validateForm (formData st)), isLoading := True\<rparr>,
      br\<lparr> localStorage := (localStorage br)(''atlas_request'' \<mapsto> requestData (formData st)),
          location := ''/report'' \<rparr>)"
  by (simp add: handleSubmit_def Let_def split_beta)

lemma handleSubmit_throws:
  "snd (validateForm (formData st)) \<Longrightarrow> setItem_throws br \<Longrightarrow>
   handleSubmit (st, br) =
     (st\<lparr>errors := fst (validateForm (formData st)), isLoading := False\<rparr>, br)"
  by (simp add: handleSubmit_def Let_def split_beta)

lemma handleSubmit_invalid:
  "\<not> snd (validateForm (formData st)) \<Longrightarrow>
   handleSubmit (st, br) = (st\<lparr>errors := fst (validateForm (formData st))\<rparr>, br)"
  by (simp add: handleSubmit_def Let_def split_beta)

lemma requestData_debug: "map_of (requestData fd) ''debug'' = Some (JBool False)"
  by (simp add: requestData_def update_conv')

lemma requestData_price:
  "map_of (requestData fd) ''price_assumption'' =
     Some (if price_assumption fd \<noteq> []
           then json_of_number (parseFloat (price_assumption fd)) else JNull)"
  by (simp add: requestData_def update_conv')

lemma get_set_prop_same: "get_prop (set_prop k v fd) k = Some v"
  by (simp add: get_prop_def set_prop_def update_conv')

lemma get_set_prop_other: "k' \<noteq> k \<Longrightarrow> get_prop (set_prop k v fd) k' = get_prop fd k'"
  by (auto simp add: get_prop_def set_prop_def update_conv')

lemma delete_absent: "map_of al k = None \<Longrightarrow> AList.delete k al = al"
  by (rule delete_id) (simp add: map_of_eq_None_iff)

lemma falsy_absent:
  assumes "messages_nonempty al" and "\<not> truthy (map_of al k)"
  shows "map_of al k = None"
proof (cases "map_of al k")
  case None
  then show ?thesis .
next
  case (Some m)
  then have "(k, m) \<in> set al" by (rule map_of_SomeD)
  with assms(1) have "m \<noteq> []" by (force simp add: messages_nonempty_def)
  with Some assms(2) show ?thesis by (simp add: truthy_def)
qed

lemmas parse_eval =
  parseFloat_def js_whitespace_def unsigned_literal_def is_digit_def scale10_def
  double_of_def exponent_part_def signed_integer_def Let_def

lemma parseFloat_samples:
  "parseFloat ''-5'' = Num (- 5)"
  "parseFloat ''9.99'' = Num (999 / 100)"
  "parseFloat ''12.5'' = Num (25 / 2)"
  "parseFloat ''1e309'' = PosInfinity"
  "parseFloat ''abc'' = NaN"
  by (simp_all add: parse_eval)

lemma valid_float_samples:
  "valid_float_string ''-5''"
  "valid_float_string ''9.99''"
  "\<not> valid_float_string ''-5abc''"
  "\<not> valid_float_string []"
  by (simp_all add: valid_float_string_def exponent_ok_def is_digit_def Let_def)

lemmas form_eval =
  validateForm_def handleSubmit_def handleChange_def requestData_def props_of_def
  trim_def isNaN_def js_whitespace_def json_of_number_def truthy_def stored_request_def
  parseFloat_samples Let_def split_beta

lemmas control_eval =
  valid_float_samples number_input_value_def rangeUnderflow_def
  form_controls_valid_def submit_event_def price_input_change_def handleTryExample_def
  price_from_control_def null_or_nonnegative_def

lemma price_from_control_initial: "price_from_control (formData initial_home)"
  by (simp add: price_from_control_def number_input_value_def initial_home_def initial_form_def)

lemma price_from_control_example: "price_from_control (formData (handleTryExample st))"
  by (simp add: control_eval EXAMPLE_DATA_def)

lemma example_home:
  "handleTryExample initial_home = \<lparr> formData = EXAMPLE_DATA, errors = [], isLoading = False \<rparr>"
  by (simp add: handleTryExample_def initial_home_def)

lemma negative_home:
  "negative_price_home =
     \<lparr> formData = EXAMPLE_DATA\<lparr>price_assumption := ''-5''\<rparr>, errors = [], isLoading = False \<rparr>"
  by (simp add: negative_price_home_def example_home price_input_change_def handleChange_def
      set_prop_def number_input_value_def valid_float_samples truthy_def)

lemma example_form_facts:
  "snd (validateForm EXAMPLE_DATA)"
  "form_controls_valid EXAMPLE_DATA"
  "price_from_control EXAMPLE_DATA"
  "snd (validateForm (EXAMPLE_DATA\<lparr>price_assumption := ''-5''\<rparr>))"
  "\<not> form_controls_valid (EXAMPLE_DATA\<lparr>price_assumption := ''-5''\<rparr>)"
  "price_from_control (EXAMPLE_DATA\<lparr>price_assumption := ''-5''\<rparr>)"
  "rangeUnderflow (number_input_value ''-5'')"
  "price_assumption EXAMPLE_DATA = ''9.99''"
  by (simp_all add: validateForm_snd well_formed_input_def control_eval EXAMPLE_DATA_def
      parseFloat_samples js_whitespace_def)

lemma number_input_value_idem: "number_input_value (number_input_value raw) = number_input_value raw"
  by (simp add: number_input_value_def valid_float_string_def)

lemma price_from_control_typed: "price_from_control (formData (price_input_change raw st))"
  by (simp add: price_from_control_def price_input_change_def handleChange_def set_prop_def
      number_input_value_idem)

lemma price_from_control_other:
  "name \<noteq> ''price_assumption'' \<Longrightarrow> price_from_control (formData st) \<Longrightarrow>
   price_from_control (formData (handleChange name val st))"
  by (simp add: price_from_control_def handleChange_def set_prop_def)

lemma price_from_control_geography:
  "price_from_control (formData st) \<Longrightarrow>
   price_from_control (formData (geographyOtherChange val st))"
  by (simp add: price_from_control_def geographyOtherChange_def)

lemma handleSubmit_formData: "formData (fst (handleSubmit (st, br))) = formData st"
  by (simp add: handleSubmit_def Let_def split_beta)

lemma submit_event_formData: "formData (fst (submit_event (st, br))) = formData st"
  by (simp add: submit_event_def handleSubmit_formData)

lemma price_passing_controls:
  assumes "price_from_control fd" and "form_controls_valid fd"
  shows "null_or_nonnegative (map_of (requestData fd) ''price_assumption'')"
proof (cases "price_assumption fd = []")
  case True
  then show ?thesis by (simp add: requestData_price null_or_nonnegative_def)
next
  case False
  with assms(1) have v: "valid_float_string (price_assumption fd)"
    and same: "number_input_value (price_assumption fd) = price_assumption fd"
    by (auto simp add: price_from_control_def number_input_value_def split: if_splits)
  from assms(2) same have "\<not> rangeUnderflow (price_assumption fd)"
    by (simp add: form_controls_valid_def)
  with v have "case parseFloat (price_assumption fd) of Num x \<Rightarrow> 0 \<le> x | _ \<Rightarrow> True"
    by (auto simp add: rangeUnderflow_def split: jsnum.splits)
  with False show ?thesis
    by (auto simp add: requestData_price null_or_nonnegative_def json_of_number_def
        split: jsnum.splits)
qed

text \<open>
  C3: \<open>validateForm\<close> should reject every price input that would give a negative
  value. Its check is only that a non-empty price does not parse to NaN: after the example
  is loaded and \<open>-5\<close> is typed into the price control, \<open>validateForm\<close> accepts the
  form, and the request that \<open>handleSubmit\<close> would store has \<open>price_assumption = -5\<close>.
\<close>

theorem validateForm_accepts_negative_counterexample:
  "price_assumption (formData negative_price_home) = ''-5'' \<and>
   snd (validateForm (formData negative_price_home)) \<and>
   map_of (requestData (formData negative_price_home)) ''price_assumption''
     = Some (JNumber (- 5))"
  by (simp add: negative_home example_form_facts requestData_price parseFloat_samples
      json_of_number_def)

text \<open>
  C3, as amended: for every request submitted through the input form, the
  \<open>price_assumption\<close> field is either null or a non-negative number. A negative price is
  kept out by the price control itself (\<open>type="number"\<close>, \<open>min="0"\<close>): while it
  underflows, the browser does not fire the submit event, so \<open>handleSubmit\<close> is not
  called and nothing is stored. \<open>validateForm\<close> rejects a non-empty price that does not
  parse as a number and does not look at its sign; what \<open>handleSubmit\<close> stores is null
  or a number in any case. A form that passes the controls and \<open>validateForm\<close> is
  stored when the write does not throw.
\<close>

theorem submitted_price_null_or_nonnegative:
  "(price_from_control (formData st) \<longrightarrow>
      snd (submit_event (st, br)) = br \<or>
      (localStorage (snd (submit_event (st, br))) ''atlas_request''
         = Some (requestData (formData st)) \<and>
       null_or_nonnegative
         (stored_request (snd (submit_event (st, br))) ''price_assumption''))) \<and>
   (rangeUnderflow (number_input_value (price_assumption (formData st))) \<longrightarrow>
      submit_event (st, br) = (st, br)) \<and>
   (snd (validateForm (formData st)) \<longrightarrow>
      price_assumption (formData st) = [] \<or>
      \<not> isNaN (parseFloat (price_assumption (formData st)))) \<and>
   (map_of (requestData (formData st)) ''price_assumption'' = Some JNull \<or>
    (\<exists>x. map_of (requestData (formData st)) ''price_assumption'' = Some (JNumber x))) \<and>
   (form_controls_valid (formData st) \<and> snd (validateForm (formData st))
      \<and> \<not> setItem_throws br \<longrightarrow>
      localStorage (snd (submit_event (st, br))) ''atlas_request''
        = Some (requestData (formData st)))"
proof -
  have stored: "snd (submit_event (st, br)) = br \<or>
      (localStorage (snd (submit_event (st, br))) ''atlas_request''
         = Some (requestData (formData st)) \<and>
       null_or_nonnegative
         (stored_request (snd (submit_event (st, br))) ''price_assumption''))"
    if inv: "price_from_control (formData st)"
  proof (cases "form_controls_valid (formData st) \<and> snd (validateForm (formData st))
      \<and> \<not> setItem_throws br")
    case True
    with price_passing_controls[OF inv] show ?thesis
      by (simp add: submit_event_def handleSubmit_valid stored_request_def)
  next
    case False
    then have "snd (submit_event (st, br)) = br"
      by (cases "snd (validateForm (formData st))")
        (auto simp add: submit_event_def handleSubmit_invalid handleSubmit_throws)
    then show ?thesis ..
  qed
  have blocked: "submit_event (st, br) = (st, br)"
    if "rangeUnderflow (number_input_value (price_assumption (formData st)))"
    using that by (simp add: submit_event_def form_controls_valid_def)
  have nan: "price_assumption (formData st) = [] \<or>
      \<not> isNaN (parseFloat (price_assumption (formData st)))"
    if "snd (validateForm (formData st))"
    using that by (simp add: validateForm_snd well_formed_input_def isNaN_def)
  have num: "map_of (requestData (formData st)) ''price_assumption'' = Some JNull \<or>
    (\<exists>x. map_of (requestData (formData st)) ''price_assumption'' = Some (JNumber x))"
    by (simp add: requestData_price json_of_number_def split: jsnum.splits)
  have pass: "localStorage (snd (submit_event (st, br))) ''atlas_request''
        = Some (requestData (formData st))"
    if "form_controls_valid (formData st) \<and> snd (validateForm (formData st))
      \<and> \<not> setItem_throws br"
    using that by (simp add: submit_event_def handleSubmit_valid)
  from stored blocked nan num pass show ?thesis by blast
qed

theorem submitted_price_null_or_nonnegative_witness:
  "price_from_control (formData (handleTryExample initial_home)) \<and>
   form_controls_valid (formData (handleTryExample initial_home)) \<and>
   snd (validateForm (formData (handleTryExample initial_home))) \<and>
   \<not> setItem_throws fresh_browser \<and>
   stored_request (snd (submit_event (handleTryExample initial_home, fresh_browser)))
     ''price_assumption'' = Some (JNumber (999 / 100)) \<and>
   price_from_control (formData negative_price_home) \<and>
   rangeUnderflow (number_input_value (price_assumption (formData negative_price_home))) \<and>
   submit_event (negative_price_home, fresh_browser) = (negative_price_home, fresh_browser)"
  using submitted_price_null_or_nonnegative [of "handleTryExample initial_home" fresh_browser]
    submitted_price_null_or_nonnegative [of negative_price_home fresh_browser]
  by (simp add: negative_home example_home example_form_facts submit_event_def
      handleSubmit_valid stored_request_def requestData_price parseFloat_samples
      json_of_number_def fresh_browser_def)

text \<open>
  C4: \<open>handleSubmit\<close> should store the request and go to the report page exactly when
  \<open>validateForm\<close> returns true. The write to \<open>localStorage\<close> sits in a
  \<^verbatim>\<open>try\<close> block: when it throws, the \<^verbatim>\<open>catch\<close> branch logs the error and resets the
  loading flag, so a valid form is neither stored nor followed by the navigation.
\<close>

theorem valid_form_not_stored_counterexample:
  "snd (validateForm (formData sample_home)) \<and>
   snd (handleSubmit (sample_home, full_browser)) = full_browser \<and>
   localStorage full_browser ''atlas_request'' = None \<and>
   location full_browser = ''/'' \<and>
   errors (fst (handleSubmit (sample_home, full_browser))) = []"
  by (simp add: form_eval sample_home_def sample_form_def full_browser_def)

text \<open>
  C4, as amended: \<open>validateForm\<close> returns true exactly when the input is well formed
  (idea and industry contain a character that is not white space; geography, customer
  type and business model are non-empty; the price is empty or parses as a number).
  \<open>handleSubmit\<close> stores the request and sets the location to the report page exactly
  when \<open>validateForm\<close> returns true and the write to \<open>localStorage\<close> does not throw.
  When \<open>validateForm\<close> returns false, the browser is left as it was, nothing but the
  errors of the form state changes, the errors are non-empty, and each field has an error
  exactly when that field is malformed. When the write throws, the browser is left as it
  was and no error is set.
\<close>

theorem form_validation_iff_malformed:
  "snd (validateForm (formData st)) = well_formed_input (formData st) \<and>
   (well_formed_input (formData st) \<and> \<not> setItem_throws br \<longrightarrow>
      snd (handleSubmit (st, br)) =
        br\<lparr> localStorage := (localStorage br)(''atlas_request'' \<mapsto> requestData (formData st)),
            location := ''/report'' \<rparr> \<and>
      errors (fst (handleSubmit (st, br))) = []) \<and>
   (well_formed_input (formData st) \<and> setItem_throws br \<longrightarrow>
      snd (handleSubmit (st, br)) = br \<and>
      fst (handleSubmit (st, br)) = st\<lparr>errors := [], isLoading := False\<rparr>) \<and>
   (\<not> well_formed_input (formData st) \<longrightarrow>
      snd (handleSubmit (st, br)) = br \<and>
      fst (handleSubmit (st, br)) = st\<lparr>errors := fst (validateForm (formData st))\<rparr> \<and>
      errors (fst (handleSubmit (st, br))) \<noteq> [] \<and>
      (\<forall>k. map_of (errors (fst (handleSubmit (st, br)))) k = field_error (formData st) k))"
proof (cases "well_formed_input (formData st)")
  case True
  then have ok: "snd (validateForm (formData st))" by (simp add: validateForm_snd)
  then have "fst (validateForm (formData st)) = []" by (simp add: validateForm_Nil)
  with True ok show ?thesis
    by (cases "setItem_throws br")
      (simp_all add: validateForm_snd handleSubmit_valid handleSubmit_throws)
next
  case False
  then have bad: "\<not> snd (validateForm (formData st))" by (simp add: validateForm_snd)
  then have "fst (validateForm (formData st)) \<noteq> []" by (simp add: validateForm_Nil)
  with False bad show ?thesis
    by (simp add: validateForm_snd handleSubmit_invalid validateForm_fst)
qed

theorem form_validation_iff_malformed_witness:
  "well_formed_input (formData sample_home) \<and> \<not> setItem_throws fresh_browser \<and>
   location (snd (handleSubmit (sample_home, fresh_browser))) = ''/report'' \<and>
   stored_request (snd (handleSubmit (sample_home, fresh_browser))) ''idea''
     = Some (JString ''Solar kiosk'') \<and>
   \<not> well_formed_input (formData initial_home) \<and>
   snd (handleSubmit (initial_home, fresh_browser)) = fresh_browser \<and>
   map_of (errors (fst (handleSubmit (initial_home, fresh_browser)))) ''idea''
     = Some ''Startup idea is required''"
  using form_validation_iff_malformed [of sample_home fresh_browser]
    form_validation_iff_malformed [of initial_home fresh_browser]
  by (simp add: form_eval well_formed_input_def field_error_def sample_home_def
      sample_form_def initial_home_def initial_form_def fresh_browser_def)

text \<open>
  C9: the request that \<open>handleSubmit\<close> stores has \<open>debug = false\<close> whatever the form
  holds, also when the form object carries a property named \<open>debug\<close>; and
  \<open>handleSubmit\<close> writes nothing else: when the form is invalid or the write throws,
  the browser is left as it was.
\<close>

theorem submitted_request_debug_false:
  "map_of (requestData (formData st)) ''debug'' = Some (JBool False) \<and>
   (snd (validateForm (formData st)) \<and> \<not> setItem_throws br \<longrightarrow>
      localStorage (snd (handleSubmit (st, br))) ''atlas_request''
        = Some (requestData (formData st)) \<and>
      stored_request (snd (handleSubmit (st, br))) ''debug'' = Some (JBool False)) \<and>
   (\<not> (snd (validateForm (formData st)) \<and> \<not> setItem_throws br) \<longrightarrow>
      snd (handleSubmit (st, br)) = br)"
proof (cases "snd (validateForm (formData st))")
  case True
  then show ?thesis
    by (cases "setItem_throws br")
      (simp_all add: handleSubmit_valid handleSubmit_throws requestData_debug stored_request_def)
next
  case False
  then show ?thesis by (simp add: handleSubmit_invalid requestData_debug)
qed

theorem submitted_request_debug_false_witness:
  "snd (validateForm (formData (handleChange ''debug'' ''true'' sample_home))) \<and>
   \<not> setItem_throws fresh_browser \<and>
   get_prop (formData (handleChange ''debug'' ''true'' sample_home)) ''debug'' = Some ''true'' \<and>
   stored_request (snd (handleSubmit (handleChange ''debug'' ''true'' sample_home, fresh_browser)))
     ''debug'' = Some (JBool False)"
  using submitted_request_debug_false [of "handleChange ''debug'' ''true'' sample_home" fresh_browser]
  by (simp add: form_eval get_prop_def set_prop_def sample_home_def sample_form_def
      fresh_browser_def)

text \<open>
  C10: \<open>handleChange\<close> for the field named \<open>X\<close> sets the \<open>X\<close> entry of \<open>formData\<close> to
  the new value and leaves every other entry as it was; every entry of \<open>errors\<close> other
  than \<open>X\<close> is left as it was, and the \<open>X\<close> entry is removed (the error messages of the
  form are never empty, so an entry that is present is removed); the loading flag is
  untouched.
\<close>

theorem handleChange_frame:
  "formData (handleChange X v st) = set_prop X v (formData st) \<and>
   get_prop (formData (handleChange X v st)) X = Some v \<and>
   (\<forall>k. k \<noteq> X \<longrightarrow> get_prop (formData (handleChange X v st)) k = get_prop (formData st) k) \<and>
   (\<forall>k. k \<noteq> X \<longrightarrow> map_of (errors (handleChange X v st)) k = map_of (errors st) k) \<and>
   (messages_nonempty (errors st) \<longrightarrow>
      errors (handleChange X v st) = AList.delete X (errors st)) \<and>
   isLoading (handleChange X v st) = isLoading st"
  by (simp add: handleChange_def get_set_prop_same get_set_prop_other delete_absent falsy_absent)

theorem handleChange_frame_witness:
  "''industry'' \<noteq> ''idea'' \<and> messages_nonempty (errors flagged_home) \<and>
   get_prop (formData (handleChange ''idea'' ''Wind'' flagged_home)) ''idea'' = Some ''Wind'' \<and>
   get_prop (formData (handleChange ''idea'' ''Wind'' flagged_home)) ''industry'' = Some [] \<and>
   errors (handleChange ''idea'' ''Wind'' flagged_home) = [(''industry'', ''Industry is required'')]"
  using handleChange_frame [of "''idea''" "''Wind''" flagged_home]
  by (simp add: form_eval get_prop_def set_prop_def flagged_home_def initial_form_def
      messages_nonempty_def)

section \<open>Facts about the report page\<close>

lemma shown_if_set: "x \<in> set (shown_if c s) \<longleftrightarrow> c \<and> x = s"
  by (auto simp add: shown_if_def)

lemma ledger_in_debug_sections:
  "Evidence_Ledger_Section l \<in> set (debug_sections raw d) \<longleftrightarrow>
     evidence_ledger d = Some l \<and> l \<noteq> []"
  by (auto simp add: debug_sections_def shown_if_set split: option.splits)

lemma ledger_in_memo_sections:
  "Evidence_Ledger_Section l \<in> set (memo_sections st d) \<longleftrightarrow>
     rp_debugMode st \<and> evidence_ledger d = Some l \<and> l \<noteq> []"
  by (auto simp add: memo_sections_def shown_if_set ledger_in_debug_sections
      split: option.splits json.splits)

lemma competitors_in_memo_sections:
  "Competitors_Table rows \<in> set (memo_sections st d) \<longleftrightarrow>
     competitors d \<noteq> [] \<and> rows = map competitor_row_of (competitors d)"
  by (auto simp add: memo_sections_def shown_if_set debug_sections_def
      split: option.splits json.splits)

lemma ReportPage_MemoD:
  "ReportPage st = Memo_View secs \<Longrightarrow>
   \<exists>d. rp_data st = Some d \<and> \<not> rp_isLoading st \<and> \<not> truthy (rp_error st)
       \<and> secs = memo_sections st d"
  by (auto simp add: ReportPage_def split: if_splits option.splits)

lemma link_href_rows: "map link_href (map competitor_row_of cs) = map source_url cs"
  by (simp add: competitor_row_of_def)

lemma runAnalysis_debugMode:
  "localStorage br ''atlas_request'' = Some req \<Longrightarrow>
   runAnalysis api (st, br) = (st', br') \<Longrightarrow> rp_data st' \<noteq> rp_data st \<Longrightarrow>
   rp_debugMode st' = js_truthy (map_of req ''debug'')"
  by (auto simp add: runAnalysis_def Let_def split: sum.splits)

lemma sample_report_view:
  "ReportPage sample_report = Memo_View (memo_sections sample_report
     (sample_fields\<lparr>evidence_ledger := Some [sample_claim]\<rparr>))"
  by (simp add: ReportPage_def sample_report_def truthy_def)

section \<open>Facts about the engine\<close>

lemma builder_Inr_iff:
  "builder inp = Inr m \<longleftrightarrow>
     validate_input inp \<and>
     m = \<lparr> tam = in_tam inp,
           sam = range_times (in_tam inp) (in_addressable_share inp),
           som = range_times (range_times (in_tam inp) (in_addressable_share inp))
                   (in_obtainable_share inp) \<rparr>"
  by (auto simp add: builder_def Let_def)

lemma analyze_InrD:
  assumes "analyze cfg inp = Inr resp"
  obtains m sc sens where
    "builder (req_funnel inp) = Inr m"
    "generate_scenarios (multipliers cfg) (req_funnel inp) = Inr sc"
    "sensitivity_analyzer (req_funnel inp) (tracked_assumptions cfg) = Inr sens"
    "resp = (collaborator_fields inp)
       \<lparr> confidence_score := confidence_scorer (weighting_formula cfg) (req_profile inp),
         market := m, competitors := sourced_competitors (req_competitors inp),
         scenarios := sc, sensitivity_analysis := sens,
         evidence_ledger := (if req_debug inp then Some (req_ledger inp) else None) \<rparr>"
  using assms by (auto simp add: analyze_def split: sum.splits)



text \<open>The ranges the Builder returns are Range Estimates: \<open>min \<le> base \<le> max\<close>.\<close>

lemma builder_range_order:
  assumes "builder inp = Inr m"
  shows "ordered_range (tam m) \<and> ordered_range (sam m) \<and> ordered_range (som m)"
proof -
  from assms have v: "validate_input inp"
    and m: "m = \<lparr> tam = in_tam inp,
           sam = range_times (in_tam inp) (in_addressable_share inp),
           som = range_times (range_times (in_tam inp) (in_addressable_share inp))
                   (in_obtainable_share inp) \<rparr>"
    by (simp_all add: builder_Inr_iff)
  from v have n: "nonneg_range (in_tam inp)" "nonneg_range (in_addressable_share inp)"
      "nonneg_range (in_obtainable_share inp)"
    and ord: "ordered_range (in_tam inp)" "ordered_range (in_addressable_share inp)"
      "ordered_range (in_obtainable_share inp)"
    by (simp_all add: validate_input_def)
  have prod: "ordered_range (range_times x y) \<and> nonneg_range (range_times x y)"
    if "nonneg_range x" "nonneg_range y" "ordered_range x" "ordered_range y" for x y
    using that unfolding ordered_range_def nonneg_range_def range_times_def
    by (simp add: mult_mono)
  from prod[OF n(1) n(2) ord(1) ord(2)] prod n(3) ord show ?thesis
    unfolding m by simp
qed

lemma oversized_share_rejected: "builder oversized_funnel = Inl ValidationError"
  by (simp add: builder_def oversized_funnel_def sample_funnel_def validate_input_def
      at_most_one_def range_of_def)

lemma scorer_range: "0 \<le> confidence_scorer w p \<and> confidence_scorer w p \<le> 100"
  by (simp add: confidence_scorer_def)






lemma validate_perturb:
  "validate_input inp \<Longrightarrow> 0 \<le> f \<Longrightarrow> f \<le> 1 \<Longrightarrow> validate_input (perturb a f inp)"
  by (cases a)
    (auto simp add: validate_input_def nonneg_range_def ordered_range_def at_most_one_def
       scale_range_def mult_left_mono mult_le_one split: option.splits)

lemma builder_succeeds: "validate_input inp \<Longrightarrow> \<exists>m. builder inp = Inr m"
  by (simp add: builder_def Let_def)

lemma sensitivity_of_succeeds:
  assumes "validate_input inp" and "validate_input (perturb a (13 / 10) inp)"
  shows "\<exists>r. sensitivity_of inp a = Inr r"
proof -
  obtain m where m: "builder inp = Inr m" using builder_succeeds[OF assms(1)] ..
  have "validate_input (perturb a (7 / 10) inp)"
    using assms(1) by (rule validate_perturb) simp_all
  then obtain lo where lo: "builder (perturb a (7 / 10) inp) = Inr lo"
    using builder_succeeds by blast
  obtain hi where hi: "builder (perturb a (13 / 10) inp) = Inr hi"
    using builder_succeeds[OF assms(2)] ..
  show ?thesis by (simp add: sensitivity_of_def som_base_def m lo hi)
qed

lemma sensitivity_all_succeeds:
  assumes "validate_input inp" and "\<forall>a\<in>set as. validate_input (perturb a (13 / 10) inp)"
  shows "\<exists>rs. sensitivity_all inp as = Inr rs"
  using assms(2)
proof (induction as)
  case Nil
  show ?case by simp
next
  case (Cons a as)
  then obtain rs where rs: "sensitivity_all inp as = Inr rs" by auto
  from Cons.prems have "validate_input (perturb a (13 / 10) inp)" by simp
  then obtain r where r: "sensitivity_of inp a = Inr r"
    using sensitivity_of_succeeds[OF assms(1)] by blast
  show ?case by (simp add: r rs)
qed

text \<open>
  The analysis returns a response whenever the funnel input, its bear and bull variants
  and its +30% perturbations pass the Builder's validation (the -30% perturbations then
  pass as well).
\<close>

lemma analyze_succeeds:
  assumes "validate_input (req_funnel inp)"
    and "validate_input (multipliers cfg Bear (req_funnel inp))"
    and "validate_input (multipliers cfg Bull (req_funnel inp))"
    and "\<forall>a\<in>set (tracked_assumptions cfg). validate_input (perturb a (13 / 10) (req_funnel inp))"
  shows "\<exists>resp. analyze cfg inp = Inr resp"
proof -
  obtain m where m: "builder (req_funnel inp) = Inr m" using builder_succeeds[OF assms(1)] ..
  obtain mb where mb: "builder (multipliers cfg Bear (req_funnel inp)) = Inr mb"
    using builder_succeeds[OF assms(2)] ..
  obtain mu where mu: "builder (multipliers cfg Bull (req_funnel inp)) = Inr mu"
    using builder_succeeds[OF assms(3)] ..
  obtain rs where rs: "sensitivity_all (req_funnel inp) (tracked_assumptions cfg) = Inr rs"
    using sensitivity_all_succeeds[OF assms(1) assms(4)] ..
  show ?thesis
    by (simp add: analyze_def generate_scenarios_def sensitivity_analyzer_def m mb mu rs)
qed

lemma sourced_competitors_carry_url:
  "\<forall>c\<in>set (sourced_competitors cs). source_url c \<noteq> []"
  by (induction cs) (auto split: option.splits)

lemmas engine_eval =
  analyze_def sample_input_def sample_funnel_def sample_config_def builder_def
  validate_input_def nonneg_range_def ordered_range_def at_most_one_def range_of_def
  range_times_def generate_scenarios_def
  scale_range_def sensitivity_analyzer_def sensitivity_of_def som_base_def Let_def
  confidence_scorer_def sample_weighting_def sample_profile_def

lemma sample_analysis_succeeds:
  "analyze sample_config sample_input = Inr (projr (analyze sample_config sample_input))"
proof -
  have "\<exists>resp. analyze sample_config sample_input = Inr resp"
  proof (rule analyze_succeeds)
    show "validate_input (req_funnel sample_input)"
      by (simp add: engine_eval)
    show "validate_input (multipliers sample_config Bear (req_funnel sample_input))"
      by (simp add: engine_eval)
    show "validate_input (multipliers sample_config Bull (req_funnel sample_input))"
      by (simp add: engine_eval)
    show "\<forall>a\<in>set (tracked_assumptions sample_config).
        validate_input (perturb a (13 / 10) (req_funnel sample_input))"
      by (simp add: engine_eval)
  qed
  then show ?thesis by auto
qed



text \<open>
  C2: the confidence score of every Decision is an integer between 0 and 100: the scorer
  clamps whatever the weighting formula gives, and the response carries the scorer's
  output.
\<close>

theorem confidence_score_within_bounds:
  "(0 \<le> confidence_scorer w p \<and> confidence_scorer w p \<le> 100) \<and>
   (analyze cfg inp = Inr resp \<longrightarrow> 0 \<le> confidence_score resp \<and> confidence_score resp \<le> 100)"
proof -
  have "0 \<le> confidence_score resp \<and> confidence_score resp \<le> 100"
    if "analyze cfg inp = Inr resp"
  proof -
    from that have "confidence_score resp =
        confidence_scorer (weighting_formula cfg) (req_profile inp)"
      by (rule analyze_InrD) simp
    then show ?thesis by (simp add: scorer_range)
  qed
  then show ?thesis by (simp add: scorer_range)
qed

theorem confidence_score_within_bounds_witness:
  "analyze sample_config sample_input = Inr (projr (analyze sample_config sample_input)) \<and>
   sample_weighting sample_profile = 125 \<and>
   confidence_score (projr (analyze sample_config sample_input)) = 100"
  using confidence_score_within_bounds
    [of sample_weighting sample_profile sample_config sample_input
        "projr (analyze sample_config sample_input)"]
    sample_analysis_succeeds
  by (simp add: engine_eval)

text \<open>
  C5: the response carries the Evidence Ledger exactly when the request's debug flag was
  true; and the report page shows the Evidence Ledger section exactly when the memo is
  shown, debug mode is on and the response's ledger is present and non-empty.
\<close>

theorem ledger_only_in_debug:
  "(analyze cfg inp = Inr resp \<longrightarrow>
      evidence_ledger resp = (if req_debug inp then Some (req_ledger inp) else None) \<and>
      (evidence_ledger resp \<noteq> None) = req_debug inp) \<and>
   (ReportPage st = Memo_View secs \<longrightarrow>
      (Evidence_Ledger_Section l \<in> set secs \<longleftrightarrow>
         rp_debugMode st \<and> map_option evidence_ledger (rp_data st) = Some (Some l) \<and> l \<noteq> []))"
proof -
  have a: "evidence_ledger resp = (if req_debug inp then Some (req_ledger inp) else None)"
    if "analyze cfg inp = Inr resp"
    using that by (rule analyze_InrD) simp
  have b: "Evidence_Ledger_Section l \<in> set secs \<longleftrightarrow>
         rp_debugMode st \<and> map_option evidence_ledger (rp_data st) = Some (Some l) \<and> l \<noteq> []"
    if "ReportPage st = Memo_View secs"
  proof -
    from ReportPage_MemoD[OF that] obtain d where
      "rp_data st = Some d" "secs = memo_sections st d" by blast
    then show ?thesis by (simp add: ledger_in_memo_sections)
  qed
  from a b show ?thesis by simp
qed

theorem ledger_only_in_debug_witness:
  "analyze sample_config sample_input = Inr (projr (analyze sample_config sample_input)) \<and>
   req_debug sample_input \<and>
   evidence_ledger (projr (analyze sample_config sample_input)) = Some [sample_claim] \<and>
   ReportPage sample_report = Memo_View (memo_sections sample_report
     (sample_fields\<lparr>evidence_ledger := Some [sample_claim]\<rparr>)) \<and>
   Evidence_Ledger_Section [sample_claim] \<in> set (memo_sections sample_report
     (sample_fields\<lparr>evidence_ledger := Some [sample_claim]\<rparr>)) \<and>
   rp_debugMode sample_report"
  using ledger_only_in_debug
    [of sample_config sample_input "projr (analyze sample_config sample_input)"
        sample_report "memo_sections sample_report
          (sample_fields\<lparr>evidence_ledger := Some [sample_claim]\<rparr>)" "[sample_claim]"]
    sample_analysis_succeeds sample_report_view
  by (simp add: sample_input_def sample_report_def)



text \<open>
  C7: every entry of the competitors list in an analysis response carries a
  \<open>source_url\<close> (present and non-empty: the response takes in only the sourced
  candidates), and the report renders one row per competitor, each with a source link to
  that entry's \<open>source_url\<close>, without any condition on the entry; so every row shown
  for an analysis response has a link that is not empty.
\<close>

theorem competitor_rows_carry_source_link:
  "(analyze cfg inp = Inr resp \<longrightarrow>
      competitors resp = sourced_competitors (req_competitors inp) \<and>
      (\<forall>c\<in>set (competitors resp). source_url c \<noteq> [])) \<and>
   (ReportPage st = Memo_View secs \<and> rp_data st = Some d \<and> competitors d \<noteq> [] \<longrightarrow>
      Competitors_Table (map competitor_row_of (competitors d)) \<in> set secs \<and>
      (\<forall>rows. Competitors_Table rows \<in> set secs \<longrightarrow>
         length rows = length (competitors d) \<and>
         map link_href rows = map source_url (competitors d) \<and>
         (\<forall>i < length rows. link_href (rows ! i) = source_url (competitors d ! i)))) \<and>
   (analyze cfg inp = Inr resp \<and> rp_data st = Some resp \<and> ReportPage st = Memo_View secs \<longrightarrow>
      (\<forall>rows. Competitors_Table rows \<in> set secs \<longrightarrow> (\<forall>r\<in>set rows. link_href r \<noteq> [])))"
proof -
  have a: "competitors resp = sourced_competitors (req_competitors inp) \<and>
      (\<forall>c\<in>set (competitors resp). source_url c \<noteq> [])"
    if "analyze cfg inp = Inr resp"
  proof -
    from that have "competitors resp = sourced_competitors (req_competitors inp)"
      by (rule analyze_InrD) simp
    then show ?thesis by (simp add: sourced_competitors_carry_url)
  qed
  have b: "Competitors_Table (map competitor_row_of (competitors d)) \<in> set secs \<and>
      (\<forall>rows. Competitors_Table rows \<in> set secs \<longrightarrow>
         length rows = length (competitors d) \<and>
         map link_href rows = map source_url (competitors d) \<and>
         (\<forall>i < length rows. link_href (rows ! i) = source_url (competitors d ! i)))"
    if "ReportPage st = Memo_View secs" "rp_data st = Some d" "competitors d \<noteq> []"
  proof -
    from ReportPage_MemoD[OF that(1)] that(2) have secs: "secs = memo_sections st d" by auto
    show ?thesis
      unfolding secs competitors_in_memo_sections
      using that(3) by (simp add: competitor_row_of_def)
  qed
  have c: "\<forall>rows. Competitors_Table rows \<in> set secs \<longrightarrow> (\<forall>r\<in>set rows. link_href r \<noteq> [])"
    if "analyze cfg inp = Inr resp" "rp_data st = Some resp" "ReportPage st = Memo_View secs"
  proof -
    from ReportPage_MemoD[OF that(3)] that(2) have secs: "secs = memo_sections st resp"
      by auto
    from a[OF that(1)] show ?thesis
      unfolding secs competitors_in_memo_sections
      by (auto simp add: competitor_row_of_def)
  qed
  from a b c show ?thesis by blast
qed

theorem competitor_rows_carry_source_link_witness:
  "analyze sample_config sample_input = Inr (projr (analyze sample_config sample_input)) \<and>
   map cand_source_url (req_competitors sample_input)
     = [Some ''https://acme.example'', None, Some []] \<and>
   competitors (projr (analyze sample_config sample_input)) = [sample_competitor] \<and>
   ReportPage sample_report = Memo_View (memo_sections sample_report
     (sample_fields\<lparr>evidence_ledger := Some [sample_claim]\<rparr>)) \<and>
   competitors (sample_fields\<lparr>evidence_ledger := Some [sample_claim]\<rparr>) \<noteq> [] \<and>
   Competitors_Table [\<lparr> row_cells = [''Acme'', ''Budget'', ''5/mo'', ''Global'', ''Price''],
       link_href = ''https://acme.example'', link_label = ''Link'' \<rparr>]
     \<in> set (memo_sections sample_report
              (sample_fields\<lparr>evidence_ledger := Some [sample_claim]\<rparr>))"
  using competitor_rows_carry_source_link
    [of sample_config sample_input "projr (analyze sample_config sample_input)"
        sample_report "memo_sections sample_report
          (sample_fields\<lparr>evidence_ledger := Some [sample_claim]\<rparr>)"
        "sample_fields\<lparr>evidence_ledger := Some [sample_claim]\<rparr>"]
    sample_analysis_succeeds sample_report_view
  by (simp add: engine_eval sample_candidates_def sample_report_def sample_fields_def
      competitor_row_of_def sample_competitor_def)





end
